theory Spec2Isabelle
  imports Main
begin

section \<open>Python values\<close>

text \<open>
  The module is Python 2 (it tests \<^verbatim>\<open>isinstance(x, basestring)\<close>). The scalar values that
  reach it are \<^verbatim>\<open>None\<close>, booleans and strings; \<open>truthy\<close> is Python's truth test and
  \<open>py_str\<close> is what \<^verbatim>\<open>"%s" % v\<close> prints.
\<close>

datatype pyval = PNone | PBool bool | PStr string

fun truthy :: "pyval \<Rightarrow> bool" where
  "truthy PNone = False"
| "truthy (PBool b) = b"
| "truthy (PStr s) = (s \<noteq> [])"

fun py_str :: "pyval \<Rightarrow> string" where
  "py_str PNone = ''None''"
| "py_str (PBool b) = (if b then ''True'' else ''False'')"
| "py_str (PStr s) = s"

text \<open>
  What a response's \<^verbatim>\<open>template_name\<close> may hold: a scalar (a template name when it is a
  string), a list or a tuple of template names, or any other object (a compiled template),
  which is neither a list, a tuple nor a string and is truthy.
\<close>

datatype template_var =
    TVal pyval
  | TList "string list"
  | TTuple "string list"
  | TObject nat

fun template_var_truthy :: "template_var \<Rightarrow> bool" where
  "template_var_truthy (TVal v) = truthy v"
| "template_var_truthy (TList xs) = (xs \<noteq> [])"
| "template_var_truthy (TTuple xs) = (xs \<noteq> [])"
| "template_var_truthy (TObject n) = True"

datatype py_error =
    TypeError string
  | TemplateSyntaxError string
  | KeyError string
  | AttributeError string

text \<open>\<^verbatim>\<open>d.get(key, default)\<close> on a dict.\<close>

definition dict_get :: "('k \<rightharpoonup> 'v) \<Rightarrow> 'k \<Rightarrow> 'v \<Rightarrow> 'v" where
  "dict_get d k dflt = (case d k of None \<Rightarrow> dflt | Some v \<Rightarrow> v)"



section \<open>Requests and responses\<close>

text \<open>
  A request carries its \<^verbatim>\<open>META\<close> dict; everything else it has (path, method, GET, the
  session, ...) is the extension part of the record.
\<close>

record request =
  META :: "string \<rightharpoonup> pyval"

text \<open>
  The response object a view returns. \<open>response_class\<close> is its \<^verbatim>\<open>__class__\<close>.
  \<open>context_data\<close> is what the view passed as the template context: a dict, or
  \<^verbatim>\<open>None\<close> (the framework's default when the view passes none), which is \<open>None\<close> here.
  The three attributes that \<^verbatim>\<open>pjax_block\<close> adds are \<open>None\<close> while the object has no
  such attribute. Every other attribute is the extension part of the record.
\<close>

datatype response_class =
    TemplateResponse
  | PJAXBlockTemplateResponse
  | OtherResponseClass string

record response =
  response_class :: response_class
  template_name :: template_var
  context_data :: "(string \<rightharpoonup> pyval) option"
  block_name :: "pyval option"
  title_variable :: "pyval option"
  title_block :: "pyval option"

text \<open>
  The test \<^verbatim>\<open>request.META.get('HTTP_X_PJAX', False)\<close> of all three decorators and of the
  mixin, as the condition of their \<^verbatim>\<open>if\<close>.
\<close>

definition http_x_pjax :: "'r request_scheme \<Rightarrow> bool" where
  "http_x_pjax request = truthy (dict_get (META request) ''HTTP_X_PJAX'' (PBool False))"


section \<open>Template names\<close>

text \<open>
  \<^verbatim>\<open>name.rsplit('.', 1)\<close> for a name that contains a dot: the text before the last dot
  and the text after it.
\<close>

definition rsplit_dot :: "string \<Rightarrow> string \<times> string" where
  "rsplit_dot name =
     (rev (tl (dropWhile (\<lambda>c. c \<noteq> CHR ''.'') (rev name))),
      rev (takeWhile (\<lambda>c. c \<noteq> CHR ''.'') (rev name)))"

text \<open>\<^verbatim>\<open>_pjaxify_template_name\<close> (an Isabelle name cannot start with an underscore).\<close>

definition pjaxify_template_name :: "string \<Rightarrow> string" where
  "pjaxify_template_name name =
     (if CHR ''.'' \<in> set name
      then (case rsplit_dot name of (stem, ext) \<Rightarrow> stem @ ''-pjax.'' @ ext)
      else name @ ''-pjax'')"

text \<open>\<^verbatim>\<open>_pjaxify_template_var\<close>.\<close>

fun pjaxify_template_var :: "template_var \<Rightarrow> template_var" where
  "pjaxify_template_var (TList names) = TList (map pjaxify_template_name names)"
| "pjaxify_template_var (TTuple names) = TTuple (map pjaxify_template_name names)"
| "pjaxify_template_var (TVal (PStr name)) = TVal (PStr (pjaxify_template_name name))"
| "pjaxify_template_var template_var = template_var"


section \<open>The decorators\<close>

text \<open>
  A view is a function of the request and of its other arguments
  (\<^verbatim>\<open>*args, **kwargs\<close>, one value here). Each decorator is curried as in the source:
  \<^verbatim>\<open>pjax(pjax_template)(view)(request, *args, **kwargs)\<close> is
  \<open>pjax pjax_template view request args\<close>.
\<close>

definition pjax_block_view ::
  "pyval \<Rightarrow> pyval \<Rightarrow> pyval \<Rightarrow> ('r request_scheme \<Rightarrow> 'args \<Rightarrow> 'a response_scheme) \<Rightarrow>
   'r request_scheme \<Rightarrow> 'args \<Rightarrow> 'a response_scheme" where
  "pjax_block_view block title_variable' title_block' view request args =
     (let resp = view request args in
      if http_x_pjax request
      then resp\<lparr>response_class := PJAXBlockTemplateResponse,
                block_name := Some block,
                title_variable := Some title_variable',
                title_block := Some title_block'\<rparr>
      else resp)"

text \<open>
  \<^verbatim>\<open>pjax_block(block, title_variable, title_block)\<close>: the \<^verbatim>\<open>TypeError\<close> is raised when
  the decorator is made, before any view is seen.
\<close>

definition pjax_block ::
  "pyval \<Rightarrow> pyval \<Rightarrow> pyval \<Rightarrow>
   py_error + (('r request_scheme \<Rightarrow> 'args \<Rightarrow> 'a response_scheme) \<Rightarrow>
               'r request_scheme \<Rightarrow> 'args \<Rightarrow> 'a response_scheme)" where
  "pjax_block block title_variable' title_block' =
     (if truthy title_variable' \<and> truthy title_block'
      then Inl (TypeError
        ''Only one of 'title_variable' and 'title_block' may be passed to pjax decorator.'')
      else Inr (pjax_block_view block title_variable' title_block'))"

definition pjax ::
  "template_var \<Rightarrow> ('r request_scheme \<Rightarrow> 'args \<Rightarrow> 'a response_scheme) \<Rightarrow>
   'r request_scheme \<Rightarrow> 'args \<Rightarrow> 'a response_scheme" where
  "pjax pjax_template view request args =
     (let resp = view request args in
      if http_x_pjax request
      then (if template_var_truthy pjax_template
            then resp\<lparr>template_name := pjax_template\<rparr>
            else resp\<lparr>template_name := pjaxify_template_var (template_name resp)\<rparr>)
      else resp)"

text \<open>
  The statement \<^verbatim>\<open>resp.context_data[context_var] = value\<close>: on a dict it stores the
  value; on \<^verbatim>\<open>None\<close> Python raises \<^verbatim>\<open>TypeError\<close>.
\<close>

definition setitem ::
  "(string \<rightharpoonup> pyval) option \<Rightarrow> string \<Rightarrow> pyval \<Rightarrow> py_error + (string \<rightharpoonup> pyval) option" where
  "setitem d k v =
     (case d of
        None \<Rightarrow> Inl (TypeError (CHR 0x27 # ''NoneType'' @ CHR 0x27
                              # '' object does not support item assignment''))
      | Some m \<Rightarrow> Inr (Some (m(k \<mapsto> v))))"

definition pjaxtend ::
  "pyval \<Rightarrow> pyval \<Rightarrow> string \<Rightarrow> ('r request_scheme \<Rightarrow> 'args \<Rightarrow> 'a response_scheme) \<Rightarrow>
   'r request_scheme \<Rightarrow> 'args \<Rightarrow> py_error + 'a response_scheme" where
  "pjaxtend parent pjax_parent context_var view request args =
     (let resp = view request args in
      if http_x_pjax request
      then (case setitem (context_data resp) context_var pjax_parent of
              Inl e \<Rightarrow> Inl e
            | Inr d \<Rightarrow> Inr (resp\<lparr>context_data := d\<rparr>))
      else if truthy parent
      then (case setitem (context_data resp) context_var parent of
              Inl e \<Rightarrow> Inl e
            | Inr d \<Rightarrow> Inr (resp\<lparr>context_data := d\<rparr>))
      else Inr resp)"


section \<open>The mixin\<close>

text \<open>
  A view object that uses \<^verbatim>\<open>PJAXResponseMixin\<close>: its request and its
  \<^verbatim>\<open>pjax_template_name\<close> (\<^verbatim>\<open>None\<close> or a template name). The names the superclass
  returns are the first argument of \<open>get_template_names\<close>.
\<close>

record 'r pjax_response_mixin =
  view_request :: "'r request_scheme"
  pjax_template_name :: "string option"

definition get_template_names ::
  "(('r, 'v) pjax_response_mixin_scheme \<Rightarrow> template_var) \<Rightarrow>
   ('r, 'v) pjax_response_mixin_scheme \<Rightarrow> template_var" where
  "get_template_names super_get_template_names self =
     (let names = super_get_template_names self in
      if http_x_pjax (view_request self)
      then (case pjax_template_name self of
              Some n \<Rightarrow> if n \<noteq> [] then TList [n] else pjaxify_template_var names
            | None \<Rightarrow> pjaxify_template_var names)
      else names)"

section \<open>Template node trees\<close>

text \<open>
  The parsed template as far as this module looks at it. A node list is an object with a
  class (\<^verbatim>\<open>NodeList\<close> as parsed, \<^verbatim>\<open>PJAXBlockNodeList\<close> once patched), an optional
  \<^verbatim>\<open>block_name\<close> attribute and its nodes. A node is a \<^verbatim>\<open>BlockNode\<close> with a name and
  a \<^verbatim>\<open>nodelist\<close>, another node with a \<^verbatim>\<open>nodelist\<close> attribute (\<open>ContainerNode\<close>), a node
  that keeps its children under another attribute, so that \<^verbatim>\<open>hasattr(node, "nodelist")\<close>
  is false (\<open>OpaqueNode\<close>), or a leaf that prints a text or a context variable.
\<close>

datatype nodelist_class = NodeList | PJAXBlockNodeList

datatype node =
    TextNode string
  | VariableNode string
  | BlockNode string nodelist
  | ContainerNode nodelist
  | OpaqueNode nodelist
and nodelist =
    NL (nl_class: nodelist_class) (nl_block_name: "string option") (nl_nodes: "node list")

text \<open>
  A compiled template: its \<^verbatim>\<open>nodelist\<close>, and its origin, which stands for everything
  else the framework knows of it (its source, the templates it extends or includes).
\<close>

datatype template = Template (template_origin: string) (template_nodelist: nodelist)

type_synonym template_context = "string \<rightharpoonup> pyval"


text \<open>
  Lines 46 and 47: \<^verbatim>\<open>node.nodelist.__class__ = PJAXBlockNodeList\<close> and
  \<^verbatim>\<open>node.nodelist.block_name = node.name\<close>.
\<close>

fun cast_nodelist :: "string \<Rightarrow> nodelist \<Rightarrow> nodelist" where
  "cast_nodelist name (NL c b ns) = NL PJAXBlockNodeList (Some name) ns"

text \<open>
  \<^verbatim>\<open>patch_tree\<close>, the closure inside \<^verbatim>\<open>rendered_content\<close>; \<open>patch_node\<close> is the body of
  its loop. The source changes the objects in place; the model returns the changed tree.
\<close>

fun patch_tree :: "pyval list \<Rightarrow> nodelist \<Rightarrow> nodelist"
and patch_node :: "pyval list \<Rightarrow> node \<Rightarrow> node" where
  "patch_tree target_blocks (NL c b ns) = NL c b (map (patch_node target_blocks) ns)"
| "patch_node target_blocks (BlockNode name nl) =
     (if PStr name \<in> set target_blocks
      then BlockNode name (cast_nodelist name nl)
      else BlockNode name (patch_tree target_blocks nl))"
| "patch_node target_blocks (ContainerNode nl) = ContainerNode (patch_tree target_blocks nl)"
| "patch_node target_blocks (OpaqueNode nl) = OpaqueNode nl"
| "patch_node target_blocks (TextNode s) = TextNode s"
| "patch_node target_blocks (VariableNode v) = VariableNode v"

text \<open>
  The same walk with a bound on the depth of the call stack: each call of
  \<^verbatim>\<open>patch_tree\<close> takes one unit, and \<open>None\<close> is a walk that needed more.
\<close>

fun patch_tree_fuel :: "nat \<Rightarrow> pyval list \<Rightarrow> nodelist \<Rightarrow> nodelist option"
and patch_node_fuel :: "nat \<Rightarrow> pyval list \<Rightarrow> node \<Rightarrow> node option" where
  "patch_tree_fuel 0 target_blocks nl = None"
| "patch_tree_fuel (Suc k) target_blocks (NL c b ns) =
     map_option (NL c b) (those (map (patch_node_fuel k target_blocks) ns))"
| "patch_node_fuel k target_blocks (BlockNode name nl) =
     (if PStr name \<in> set target_blocks
      then Some (BlockNode name (cast_nodelist name nl))
      else map_option (BlockNode name) (patch_tree_fuel k target_blocks nl))"
| "patch_node_fuel k target_blocks (ContainerNode nl) =
     map_option ContainerNode (patch_tree_fuel k target_blocks nl)"
| "patch_node_fuel k target_blocks (OpaqueNode nl) = Some (OpaqueNode nl)"
| "patch_node_fuel k target_blocks (TextNode s) = Some (TextNode s)"
| "patch_node_fuel k target_blocks (VariableNode v) = Some (VariableNode v)"


section \<open>The framework\<close>



section \<open>Capturing node lists\<close>





section \<open>The response class\<close>

definition target_blocks_of :: "pyval \<Rightarrow> pyval \<Rightarrow> pyval list" where
  "target_blocks_of block_name' title_block' = filter truthy [block_name', title_block']"






section \<open>Notions for the properties\<close>

text \<open>
  The \<^verbatim>\<open>isinstance\<close> tests of \<^verbatim>\<open>_pjaxify_template_var\<close>.
\<close>

fun is_list_or_tuple :: "template_var \<Rightarrow> bool" where
  "is_list_or_tuple (TList names) = True"
| "is_list_or_tuple (TTuple names) = True"
| "is_list_or_tuple (TVal v) = False"
| "is_list_or_tuple (TObject n) = False"

fun is_basestring :: "template_var \<Rightarrow> bool" where
  "is_basestring (TVal (PStr s)) = True"
| "is_basestring (TVal PNone) = False"
| "is_basestring (TVal (PBool b)) = False"
| "is_basestring (TList names) = False"
| "is_basestring (TTuple names) = False"
| "is_basestring (TObject n) = False"

text \<open>
  Positions in a tree are paths of indices: \<open>[i]\<close> is the \<open>i\<close>-th node of the node list,
  \<open>i # p\<close> is the position \<open>p\<close> among the children of that node. \<open>node_children\<close> are
  the children of a node under whatever attribute it keeps them; \<open>nodelist_attr\<close> is its
  \<^verbatim>\<open>nodelist\<close> attribute, when \<^verbatim>\<open>hasattr(node, "nodelist")\<close> holds.
\<close>

fun node_children :: "node \<Rightarrow> nodelist option" where
  "node_children (BlockNode name nl) = Some nl"
| "node_children (ContainerNode nl) = Some nl"
| "node_children (OpaqueNode nl) = Some nl"
| "node_children (TextNode s) = None"
| "node_children (VariableNode v) = None"

fun nodelist_attr :: "node \<Rightarrow> nodelist option" where
  "nodelist_attr (BlockNode name nl) = Some nl"
| "nodelist_attr (ContainerNode nl) = Some nl"
| "nodelist_attr (OpaqueNode nl) = None"
| "nodelist_attr (TextNode s) = None"
| "nodelist_attr (VariableNode v) = None"

fun node_at :: "nodelist \<Rightarrow> nat list \<Rightarrow> node option" where
  "node_at nl [] = None"
| "node_at nl [i] = (if i < length (nl_nodes nl) then Some (nl_nodes nl ! i) else None)"
| "node_at nl (i # j # p) =
     (if i < length (nl_nodes nl)
      then (case node_children (nl_nodes nl ! i) of
              None \<Rightarrow> None
            | Some nl' \<Rightarrow> node_at nl' (j # p))
      else None)"

text \<open>A \<^verbatim>\<open>BlockNode\<close> whose name is one of the target names.\<close>

fun is_target :: "pyval list \<Rightarrow> node \<Rightarrow> bool" where
  "is_target target_blocks (BlockNode name nl) = (PStr name \<in> set target_blocks)"
| "is_target target_blocks (ContainerNode nl) = False"
| "is_target target_blocks (OpaqueNode nl) = False"
| "is_target target_blocks (TextNode s) = False"
| "is_target target_blocks (VariableNode v) = False"

text \<open>
  The positions the walk comes to: every node of the top node list, and the nodes of the
  \<^verbatim>\<open>nodelist\<close> of a node the walk came to that is not a target block.
\<close>

fun walked :: "pyval list \<Rightarrow> nodelist \<Rightarrow> nat list \<Rightarrow> bool" where
  "walked target_blocks nl [] = False"
| "walked target_blocks nl [i] = (i < length (nl_nodes nl))"
| "walked target_blocks nl (i # j # p) =
     (if i < length (nl_nodes nl) \<and> \<not> is_target target_blocks (nl_nodes nl ! i)
      then (case nodelist_attr (nl_nodes nl ! i) of
              None \<Rightarrow> False
            | Some nl' \<Rightarrow> walked target_blocks nl' (j # p))
      else False)"

text \<open>A node without its grandchildren: its kind, its name or text, and the class and
  \<^verbatim>\<open>block_name\<close> of its node list.\<close>

fun shallow :: "node \<Rightarrow> node" where
  "shallow (BlockNode name nl) = BlockNode name (NL (nl_class nl) (nl_block_name nl) [])"
| "shallow (ContainerNode nl) = ContainerNode (NL (nl_class nl) (nl_block_name nl) [])"
| "shallow (OpaqueNode nl) = OpaqueNode (NL (nl_class nl) (nl_block_name nl) [])"
| "shallow (TextNode s) = TextNode s"
| "shallow (VariableNode v) = VariableNode v"

text \<open>What a target block looks like once patched, without its grandchildren.\<close>

fun patched_shallow :: "node \<Rightarrow> node" where
  "patched_shallow (BlockNode name nl) = BlockNode name (NL PJAXBlockNodeList (Some name) [])"
| "patched_shallow (ContainerNode nl) = shallow (ContainerNode nl)"
| "patched_shallow (OpaqueNode nl) = shallow (OpaqueNode nl)"
| "patched_shallow (TextNode s) = TextNode s"
| "patched_shallow (VariableNode v) = VariableNode v"

text \<open>How deep the \<^verbatim>\<open>nodelist\<close> attributes nest: a bound on the calls the walk stacks.\<close>

fun nodelist_depth :: "nodelist \<Rightarrow> nat"
and node_depth :: "node \<Rightarrow> nat" where
  "nodelist_depth (NL c b ns) = Suc (fold max (map node_depth ns) 0)"
| "node_depth (BlockNode name nl) = nodelist_depth nl"
| "node_depth (ContainerNode nl) = nodelist_depth nl"
| "node_depth (OpaqueNode nl) = 0"
| "node_depth (TextNode s) = 0"
| "node_depth (VariableNode v) = 0"




section \<open>Example data\<close>

definition pjax_request :: request where
  "pjax_request = \<lparr>META = [''HTTP_X_PJAX'' \<mapsto> PStr ''true'']\<rparr>"

definition plain_request :: request where
  "plain_request = \<lparr>META = Map.empty\<rparr>"

definition other_pjax_request :: request where
  "other_pjax_request = \<lparr>META = [''HTTP_X_PJAX'' \<mapsto> PBool True, ''PATH_INFO'' \<mapsto> PStr ''/x'']\<rparr>"

definition example_response :: response where
  "example_response =
     \<lparr>response_class = TemplateResponse,
      template_name = TList [''blog/post.html'', ''post''],
      context_data = Some [''user'' \<mapsto> PStr ''Ann''],
      block_name = None, title_variable = None, title_block = None\<rparr>"

definition example_view :: "request \<Rightarrow> unit \<Rightarrow> response" where
  "example_view request args = example_response"

text \<open>A view that passes no context to its template response.\<close>

definition no_context_view :: "request \<Rightarrow> unit \<Rightarrow> response" where
  "no_context_view request args = example_response\<lparr>context_data := None\<rparr>"

definition example_mixin :: "(unit, unit) pjax_response_mixin_scheme \<Rightarrow> template_var" where
  "example_mixin self = TList [''blog/post.html'']"

text \<open>
  A page whose block \<open>side\<close> sits in a node without a \<^verbatim>\<open>nodelist\<close> attribute (as the
  branches of an \<^verbatim>\<open>if\<close> do).
\<close>

definition example_template :: template where
  "example_template = Template ''blog/post.html'' (NL NodeList None
     [TextNode ''<html>'',
      BlockNode ''title'' (NL NodeList None [TextNode ''Home'']),
      ContainerNode (NL NodeList None
        [BlockNode ''main'' (NL NodeList None
           [TextNode ''Hello '', VariableNode ''user'',
            BlockNode ''title'' (NL NodeList None [TextNode ''!''])])]),
      OpaqueNode (NL NodeList None
        [BlockNode ''side'' (NL NodeList None [TextNode ''hidden''])]),
      TextNode ''</html>''])"

text \<open>
  A renderer for the examples, in which every node prints its children once and in
  order, and a variable prints its value: the text of a node list, and the calls
  \<^verbatim>\<open>nodelist.render(context)\<close> in the order in which they return.
\<close>

fun example_node_text :: "template_context \<Rightarrow> node \<Rightarrow> string"
and example_text :: "template_context \<Rightarrow> nodelist \<Rightarrow> string" where
  "example_node_text ctx (TextNode s) = s"
| "example_node_text ctx (VariableNode v) = (case ctx v of None \<Rightarrow> [] | Some x \<Rightarrow> py_str x)"
| "example_node_text ctx (BlockNode name nl) = example_text ctx nl"
| "example_node_text ctx (ContainerNode nl) = example_text ctx nl"
| "example_node_text ctx (OpaqueNode nl) = example_text ctx nl"
| "example_text ctx (NL c b ns) = concat (map (example_node_text ctx) ns)"

fun example_node_calls :: "template_context \<Rightarrow> node \<Rightarrow> (nodelist \<times> string) list"
and example_calls :: "template_context \<Rightarrow> nodelist \<Rightarrow> (nodelist \<times> string) list" where
  "example_node_calls ctx (TextNode s) = []"
| "example_node_calls ctx (VariableNode v) = []"
| "example_node_calls ctx (BlockNode name nl) = example_calls ctx nl"
| "example_node_calls ctx (ContainerNode nl) = example_calls ctx nl"
| "example_node_calls ctx (OpaqueNode nl) = example_calls ctx nl"
| "example_calls ctx (NL c b ns) =
     concat (map (example_node_calls ctx) ns) @ [(NL c b ns, example_text ctx (NL c b ns))]"



section \<open>Template names: properties\<close>

lemma rsplit_dot_append:
  "CHR ''.'' \<notin> set ext \<Longrightarrow> rsplit_dot (stem @ CHR ''.'' # ext) = (stem, ext)"
  by (simp add: rsplit_dot_def takeWhile_append dropWhile_append)

lemma pjaxify_name_dot:
  "CHR ''.'' \<notin> set ext \<Longrightarrow>
   pjaxify_template_name (stem @ CHR ''.'' # ext) = stem @ ''-pjax.'' @ ext"
  by (simp add: pjaxify_template_name_def rsplit_dot_append)

lemma pjaxify_name_nodot:
  "CHR ''.'' \<notin> set name \<Longrightarrow> pjaxify_template_name name = name @ ''-pjax''"
  by (simp add: pjaxify_template_name_def)

text \<open>
  C10. \<^verbatim>\<open>_pjaxify_template_var\<close> keeps the shape of its argument: a list gives a list
  and a tuple a tuple, of the same length, whose \<open>i\<close>-th element is
  \<^verbatim>\<open>_pjaxify_template_name\<close> of the \<open>i\<close>-th element of the argument; a string gives
  \<^verbatim>\<open>_pjaxify_template_name\<close> of the string; any other value is returned as it is.
\<close>

theorem pjaxify_template_var_shape:
  "(\<exists>out. pjaxify_template_var (TList names) = TList out \<and> length out = length names \<and>
          (\<forall>i<length names. out ! i = pjaxify_template_name (names ! i)))
   \<and> (\<exists>out. pjaxify_template_var (TTuple names) = TTuple out \<and> length out = length names \<and>
          (\<forall>i<length names. out ! i = pjaxify_template_name (names ! i)))
   \<and> pjaxify_template_var (TVal (PStr name)) = TVal (PStr (pjaxify_template_name name))
   \<and> (\<not> is_list_or_tuple template_var \<and> \<not> is_basestring template_var \<longrightarrow>
        pjaxify_template_var template_var = template_var)"
proof -
  have other: "\<not> is_list_or_tuple template_var \<and> \<not> is_basestring template_var \<longrightarrow>
        pjaxify_template_var template_var = template_var"
    by (cases template_var rule: pjaxify_template_var.cases) simp_all
  show ?thesis using other by simp
qed

theorem pjaxify_template_var_shape_witness:
  "pjaxify_template_var (TList [''blog/post.html'', ''post'']) =
     TList [''blog/post-pjax.html'', ''post-pjax'']
   \<and> pjaxify_template_var (TTuple [''a.b.c'']) = TTuple [''a.b-pjax.c'']
   \<and> pjaxify_template_var (TVal (PStr ''base.html'')) = TVal (PStr ''base-pjax.html'')
   \<and> \<not> is_list_or_tuple (TObject 7) \<and> \<not> is_basestring (TObject 7)
   \<and> pjaxify_template_var (TObject 7) = TObject 7"
  using pjaxify_template_var_shape [of "[''blog/post.html'', ''post'']" "''base.html''" "TObject 7"]
  by (simp add: pjaxify_template_name_def rsplit_dot_def)


section \<open>The decorators: properties\<close>

text \<open>
  C2. On a request with a truthy \<^verbatim>\<open>HTTP_X_PJAX\<close> entry, a view wrapped with
  \<^verbatim>\<open>pjax(pjax_template)\<close> returns the view's response with \<^verbatim>\<open>template_name\<close> replaced
  by \<^verbatim>\<open>pjax_template\<close> when that is truthy; otherwise every template name of the
  response (in a list, in a tuple, or alone) is rewritten, and the rewriting puts
  \<^verbatim>\<open>-pjax\<close> before the last dot of the name, or at its end when it has no dot.
\<close>

theorem pjax_rewrites_template_name:
  assumes "http_x_pjax request"
  shows "(template_var_truthy pjax_template \<longrightarrow>
            pjax pjax_template view request args =
              (view request args)\<lparr>template_name := pjax_template\<rparr>)
       \<and> (\<not> template_var_truthy pjax_template \<longrightarrow>
            (\<forall>names. template_name (view request args) = TList names \<longrightarrow>
               pjax pjax_template view request args =
                 (view request args)\<lparr>template_name := TList (map pjaxify_template_name names)\<rparr>)
          \<and> (\<forall>names. template_name (view request args) = TTuple names \<longrightarrow>
               pjax pjax_template view request args =
                 (view request args)\<lparr>template_name := TTuple (map pjaxify_template_name names)\<rparr>)
          \<and> (\<forall>name. template_name (view request args) = TVal (PStr name) \<longrightarrow>
               pjax pjax_template view request args =
                 (view request args)\<lparr>template_name := TVal (PStr (pjaxify_template_name name))\<rparr>))
       \<and> (\<forall>stem ext. CHR ''.'' \<notin> set ext \<longrightarrow>
            pjaxify_template_name (stem @ ''.'' @ ext) = stem @ ''-pjax.'' @ ext)
       \<and> (\<forall>name. CHR ''.'' \<notin> set name \<longrightarrow> pjaxify_template_name name = name @ ''-pjax'')"
  using assms by (simp add: pjax_def Let_def pjaxify_name_dot pjaxify_name_nodot)

theorem pjax_rewrites_template_name_witness:
  "http_x_pjax pjax_request
   \<and> pjax (TVal (PStr ''fragment.html'')) example_view pjax_request () =
       example_response\<lparr>template_name := TVal (PStr ''fragment.html'')\<rparr>
   \<and> pjax (TVal PNone) example_view pjax_request () =
       example_response\<lparr>template_name := TList [''blog/post-pjax.html'', ''post-pjax'']\<rparr>"
  using pjax_rewrites_template_name [of pjax_request "TVal PNone" example_view "()"]
        pjax_rewrites_template_name [of pjax_request "TVal (PStr ''fragment.html'')" example_view "()"]
  by (simp add: http_x_pjax_def dict_get_def pjax_request_def example_view_def
        example_response_def pjaxify_template_name_def rsplit_dot_def)

text \<open>
  C3. On a request without a truthy \<^verbatim>\<open>HTTP_X_PJAX\<close> entry, a view decorated with
  \<^verbatim>\<open>pjax_block\<close> or with \<^verbatim>\<open>pjax\<close> returns the response of the wrapped view itself:
  the same class, the same \<^verbatim>\<open>template_name\<close>, and every other attribute as the view
  made it.
\<close>

theorem non_pjax_response_unchanged:
  assumes "\<not> http_x_pjax request"
  shows "pjax_block_view block tv tb view request args = view request args
       \<and> (\<forall>decorator. pjax_block block tv tb = Inr decorator \<longrightarrow>
             decorator view request args = view request args)
       \<and> pjax pjax_template view request args = view request args"
  using assms by (auto simp: pjax_block_view_def pjax_block_def pjax_def Let_def)

theorem non_pjax_response_unchanged_witness:
  "\<not> http_x_pjax plain_request
   \<and> pjax_block (PStr ''main'') PNone (PStr ''title'') =
       Inr (pjax_block_view (PStr ''main'') PNone (PStr ''title''))
   \<and> pjax_block_view (PStr ''main'') PNone (PStr ''title'') example_view plain_request () =
       example_response
   \<and> pjax (TVal PNone) example_view plain_request () = example_response"
  using non_pjax_response_unchanged
          [of plain_request "PStr ''main''" PNone "PStr ''title''" example_view "()" "TVal PNone"]
  by (simp add: http_x_pjax_def dict_get_def plain_request_def example_view_def pjax_block_def)

text \<open>
  C5, as it is written, fails: a view that passes no context returns a response whose
  \<^verbatim>\<open>context_data\<close> is \<^verbatim>\<open>None\<close>, and on a PJAX request the wrapper raises
  \<^verbatim>\<open>TypeError\<close> where the claim has it set \<^verbatim>\<open>context_data[context_var]\<close>.
\<close>

theorem pjaxtend_without_context_counterexample:
  "http_x_pjax pjax_request
   \<and> context_data (no_context_view pjax_request ()) = None
   \<and> pjaxtend (PStr ''base.html'') (PStr ''pjax.html'') ''parent'' no_context_view
        pjax_request () =
       Inl (TypeError (CHR 0x27 # ''NoneType'' @ CHR 0x27
                       # '' object does not support item assignment''))"
  by (simp add: http_x_pjax_def dict_get_def pjax_request_def no_context_view_def
        pjaxtend_def setitem_def)

text \<open>
  C5, amended. When the response of the wrapped view has a dict as its
  \<^verbatim>\<open>context_data\<close>, a view wrapped with
  \<^verbatim>\<open>pjaxtend(parent, pjax_parent, context_var)\<close> returns that response with
  \<^verbatim>\<open>context_data[context_var]\<close> set to \<^verbatim>\<open>pjax_parent\<close> when the request has a truthy
  \<^verbatim>\<open>HTTP_X_PJAX\<close> entry, and to \<^verbatim>\<open>parent\<close> otherwise when \<^verbatim>\<open>parent\<close> is truthy; the
  other keys of the dict and every other attribute of the response are as the view made
  them. With a falsy \<^verbatim>\<open>parent\<close>, a request that is not PJAX gets the view's response as
  it is, whatever its \<^verbatim>\<open>context_data\<close>.
\<close>

theorem pjaxtend_sets_context_var:
  "(\<forall>d. context_data (view request args) = Some d \<longrightarrow>
       (http_x_pjax request \<longrightarrow>
          pjaxtend parent pjax_parent context_var view request args =
            Inr ((view request args)\<lparr>context_data := Some (d(context_var \<mapsto> pjax_parent))\<rparr>))
     \<and> (\<not> http_x_pjax request \<and> truthy parent \<longrightarrow>
          pjaxtend parent pjax_parent context_var view request args =
            Inr ((view request args)\<lparr>context_data := Some (d(context_var \<mapsto> parent))\<rparr>))
     \<and> (\<exists>d'. pjaxtend parent pjax_parent context_var view request args =
                 Inr ((view request args)\<lparr>context_data := Some d'\<rparr>)
             \<and> (\<forall>k. k \<noteq> context_var \<longrightarrow> d' k = d k)))
   \<and> (\<not> http_x_pjax request \<and> \<not> truthy parent \<longrightarrow>
        pjaxtend parent pjax_parent context_var view request args = Inr (view request args))"
proof -
  have unchanged: "\<not> http_x_pjax request \<and> \<not> truthy parent \<longrightarrow>
        pjaxtend parent pjax_parent context_var view request args = Inr (view request args)"
    by (simp add: pjaxtend_def Let_def)
  have dict: "\<exists>d'. pjaxtend parent pjax_parent context_var view request args =
                 Inr ((view request args)\<lparr>context_data := Some d'\<rparr>)
             \<and> (\<forall>k. k \<noteq> context_var \<longrightarrow> d' k = d k)"
    if d: "context_data (view request args) = Some d" for d
  proof (cases "http_x_pjax request")
    case True
    with d show ?thesis
      by (intro exI [of _ "d(context_var \<mapsto> pjax_parent)"])
         (simp add: pjaxtend_def Let_def setitem_def)
  next
    case no_pjax: False
    show ?thesis
    proof (cases "truthy parent")
      case True
      with d no_pjax show ?thesis
        by (intro exI [of _ "d(context_var \<mapsto> parent)"])
           (simp add: pjaxtend_def Let_def setitem_def)
    next
      case False
      have "(view request args)\<lparr>context_data := Some d\<rparr> = view request args"
        using d by (metis response.surjective response.update_convs(3))
      with d no_pjax False show ?thesis
        by (intro exI [of _ d]) (simp add: pjaxtend_def Let_def)
    qed
  qed
  show ?thesis
    using unchanged dict by (auto simp: pjaxtend_def Let_def setitem_def)
qed

theorem pjaxtend_sets_context_var_witness:
  "http_x_pjax pjax_request
   \<and> context_data (example_view pjax_request ()) = Some [''user'' \<mapsto> PStr ''Ann'']
   \<and> pjaxtend (PStr ''base.html'') (PStr ''pjax.html'') ''parent'' example_view pjax_request () =
       Inr (example_response
              \<lparr>context_data := Some [''user'' \<mapsto> PStr ''Ann'', ''parent'' \<mapsto> PStr ''pjax.html'']\<rparr>)
   \<and> \<not> http_x_pjax plain_request \<and> truthy (PStr ''base.html'')
   \<and> pjaxtend (PStr ''base.html'') (PStr ''pjax.html'') ''parent'' example_view plain_request () =
       Inr (example_response
              \<lparr>context_data := Some [''user'' \<mapsto> PStr ''Ann'', ''parent'' \<mapsto> PStr ''base.html'']\<rparr>)
   \<and> \<not> truthy PNone
   \<and> pjaxtend PNone (PStr ''pjax.html'') ''parent'' example_view plain_request () =
       Inr example_response
   \<and> pjaxtend PNone (PStr ''pjax.html'') ''parent'' no_context_view plain_request () =
       Inr (example_response\<lparr>context_data := None\<rparr>)"
  using pjaxtend_sets_context_var
          [of example_view pjax_request "()" "PStr ''base.html''" "PStr ''pjax.html''" "''parent''"]
        pjaxtend_sets_context_var
          [of example_view plain_request "()" "PStr ''base.html''" "PStr ''pjax.html''" "''parent''"]
        pjaxtend_sets_context_var
          [of example_view plain_request "()" PNone "PStr ''pjax.html''" "''parent''"]
        pjaxtend_sets_context_var
          [of no_context_view plain_request "()" PNone "PStr ''pjax.html''" "''parent''"]
  by (simp add: http_x_pjax_def dict_get_def pjax_request_def plain_request_def
        example_view_def no_context_view_def example_response_def)

text \<open>
  C9. \<^verbatim>\<open>pjax_block\<close> raises \<^verbatim>\<open>TypeError\<close>, when the decorator is made, if and only if
  \<^verbatim>\<open>title_variable\<close> and \<^verbatim>\<open>title_block\<close> are both truthy, and then there is no
  decorator to wrap a view with; with at most one of them truthy it returns the
  decorator.
\<close>

theorem pjax_block_type_error:
  "((\<exists>msg. (pjax_block block tv tb ::
        py_error + (('r request_scheme \<Rightarrow> 'args \<Rightarrow> 'a response_scheme) \<Rightarrow>
                    'r request_scheme \<Rightarrow> 'args \<Rightarrow> 'a response_scheme)) = Inl (TypeError msg))
      \<longleftrightarrow> truthy tv \<and> truthy tb)
   \<and> ((\<exists>decorator. (pjax_block block tv tb ::
        py_error + (('r request_scheme \<Rightarrow> 'args \<Rightarrow> 'a response_scheme) \<Rightarrow>
                    'r request_scheme \<Rightarrow> 'args \<Rightarrow> 'a response_scheme)) = Inr decorator)
      \<longleftrightarrow> \<not> (truthy tv \<and> truthy tb))
   \<and> (\<forall>decorator. (pjax_block block tv tb ::
        py_error + (('r request_scheme \<Rightarrow> 'args \<Rightarrow> 'a response_scheme) \<Rightarrow>
                    'r request_scheme \<Rightarrow> 'args \<Rightarrow> 'a response_scheme)) = Inr decorator
      \<longrightarrow> decorator = pjax_block_view block tv tb)"
  by (auto simp: pjax_block_def)

theorem pjax_block_type_error_witness:
  "truthy (PStr ''page_title'') \<and> truthy (PStr ''title'')
   \<and> (\<exists>msg. (pjax_block (PStr ''main'') (PStr ''page_title'') (PStr ''title'') ::
         py_error + ((request \<Rightarrow> unit \<Rightarrow> response) \<Rightarrow> request \<Rightarrow> unit \<Rightarrow> response))
         = Inl (TypeError msg))
   \<and> (\<exists>decorator. (pjax_block (PStr ''main'') PNone (PStr ''title'') ::
         py_error + ((request \<Rightarrow> unit \<Rightarrow> response) \<Rightarrow> request \<Rightarrow> unit \<Rightarrow> response))
         = Inr decorator)
   \<and> (\<exists>decorator. (pjax_block (PStr ''main'') (PStr ''page_title'') PNone ::
         py_error + ((request \<Rightarrow> unit \<Rightarrow> response) \<Rightarrow> request \<Rightarrow> unit \<Rightarrow> response))
         = Inr decorator)
   \<and> (\<exists>decorator. (pjax_block (PStr ''main'') PNone PNone ::
         py_error + ((request \<Rightarrow> unit \<Rightarrow> response) \<Rightarrow> request \<Rightarrow> unit \<Rightarrow> response))
         = Inr decorator)"
  using pjax_block_type_error
          [where ?'r = unit and ?'args = unit and ?'a = unit,
           of "PStr ''main''" "PStr ''page_title''" "PStr ''title''"]
        pjax_block_type_error
          [where ?'r = unit and ?'args = unit and ?'a = unit,
           of "PStr ''main''" PNone "PStr ''title''"]
        pjax_block_type_error
          [where ?'r = unit and ?'args = unit and ?'a = unit,
           of "PStr ''main''" "PStr ''page_title''" PNone]
        pjax_block_type_error
          [where ?'r = unit and ?'args = unit and ?'a = unit,
           of "PStr ''main''" PNone PNone]
  by simp

text \<open>
  C7. The decorators and the mixin look at the request only through the test of its
  \<^verbatim>\<open>HTTP_X_PJAX\<close> entry, and keep nothing from one call to the next: two calls whose
  requests agree on that test and whose wrapped views (for the mixin: whose superclass
  and \<^verbatim>\<open>pjax_template_name\<close>) give the same result return the same response, however
  else the two requests differ.
\<close>

theorem decorators_depend_on_header_only:
  assumes "http_x_pjax request1 = http_x_pjax request2"
  shows "(view1 request1 args1 = view2 request2 args2 \<longrightarrow>
            pjax_block_view block tv tb view1 request1 args1 =
              pjax_block_view block tv tb view2 request2 args2
          \<and> pjax pjax_template view1 request1 args1 = pjax pjax_template view2 request2 args2
          \<and> pjaxtend parent pjax_parent context_var view1 request1 args1 =
              pjaxtend parent pjax_parent context_var view2 request2 args2)
       \<and> (view_request self1 = request1 \<and> view_request self2 = request2
          \<and> super1 self1 = super2 self2
          \<and> pjax_template_name self1 = pjax_template_name self2 \<longrightarrow>
            get_template_names super1 self1 = get_template_names super2 self2)"
  using assms
  by (simp add: pjax_block_view_def pjax_def pjaxtend_def get_template_names_def Let_def)

theorem decorators_depend_on_header_only_witness:
  "http_x_pjax pjax_request = http_x_pjax other_pjax_request
   \<and> pjax_request \<noteq> other_pjax_request
   \<and> example_view pjax_request () = example_view other_pjax_request ()
   \<and> pjax_block_view (PStr ''main'') PNone PNone example_view pjax_request () =
       pjax_block_view (PStr ''main'') PNone PNone example_view other_pjax_request ()
   \<and> pjax (TVal PNone) example_view pjax_request () =
       pjax (TVal PNone) example_view other_pjax_request ()
   \<and> pjaxtend (PStr ''base.html'') (PStr ''pjax.html'') ''parent'' example_view pjax_request () =
       pjaxtend (PStr ''base.html'') (PStr ''pjax.html'') ''parent'' example_view
         other_pjax_request ()
   \<and> get_template_names example_mixin
         \<lparr>view_request = pjax_request, pjax_template_name = None\<rparr> =
       get_template_names example_mixin
         \<lparr>view_request = other_pjax_request, pjax_template_name = None\<rparr>"
proof -
  have agree: "http_x_pjax pjax_request = http_x_pjax other_pjax_request"
    by (simp add: http_x_pjax_def dict_get_def pjax_request_def other_pjax_request_def)
  have differ: "pjax_request \<noteq> other_pjax_request"
  proof
    assume "pjax_request = other_pjax_request"
    then have "META pjax_request ''PATH_INFO'' = META other_pjax_request ''PATH_INFO''"
      by simp
    then show False
      by (simp add: pjax_request_def other_pjax_request_def)
  qed
  have same: "example_view pjax_request () = example_view other_pjax_request ()"
    by (simp add: example_view_def)
  show ?thesis
    using decorators_depend_on_header_only
            [OF agree, of example_view "()" example_view "()" "PStr ''main''" PNone PNone
               "TVal PNone" "PStr ''base.html''" "PStr ''pjax.html''" "''parent''"
               "\<lparr>view_request = pjax_request, pjax_template_name = None\<rparr>"
               "\<lparr>view_request = other_pjax_request, pjax_template_name = None\<rparr>"
               example_mixin example_mixin]
          agree differ same
    by (simp add: example_mixin_def)
qed

text \<open>
  C4. \<^verbatim>\<open>get_template_names\<close> of a view that uses \<^verbatim>\<open>PJAXResponseMixin\<close> returns the
  names of the superclass as they are when the request has no truthy \<^verbatim>\<open>HTTP_X_PJAX\<close>
  entry. When it has one, the result is the one-element list \<^verbatim>\<open>[pjax_template_name]\<close>
  if \<^verbatim>\<open>pjax_template_name\<close> is set (a non-empty name), and otherwise the names of the
  superclass, each rewritten, in a list when they came in a list and in a tuple when they
  came in a tuple.
\<close>

theorem get_template_names_pjax:
  "(\<not> http_x_pjax (view_request self) \<longrightarrow>
      get_template_names super_names self = super_names self)
   \<and> (http_x_pjax (view_request self) \<longrightarrow>
        (\<forall>n. pjax_template_name self = Some n \<and> n \<noteq> [] \<longrightarrow>
           get_template_names super_names self = TList [n])
      \<and> (pjax_template_name self = None \<or> pjax_template_name self = Some [] \<longrightarrow>
           get_template_names super_names self = pjaxify_template_var (super_names self)
         \<and> (\<forall>names. super_names self = TList names \<longrightarrow>
              get_template_names super_names self = TList (map pjaxify_template_name names))
         \<and> (\<forall>names. super_names self = TTuple names \<longrightarrow>
              get_template_names super_names self = TTuple (map pjaxify_template_name names))))"
  by (auto simp: get_template_names_def Let_def)

theorem get_template_names_pjax_witness:
  "\<not> http_x_pjax plain_request
   \<and> get_template_names example_mixin
         \<lparr>view_request = plain_request, pjax_template_name = Some ''fragment.html''\<rparr> =
       TList [''blog/post.html'']
   \<and> http_x_pjax pjax_request
   \<and> get_template_names example_mixin
         \<lparr>view_request = pjax_request, pjax_template_name = Some ''fragment.html''\<rparr> =
       TList [''fragment.html'']
   \<and> get_template_names example_mixin
         \<lparr>view_request = pjax_request, pjax_template_name = None\<rparr> =
       TList [''blog/post-pjax.html'']"
  using get_template_names_pjax
          [of "\<lparr>view_request = plain_request, pjax_template_name = Some ''fragment.html''\<rparr>"
              example_mixin]
        get_template_names_pjax
          [of "\<lparr>view_request = pjax_request, pjax_template_name = Some ''fragment.html''\<rparr>"
              example_mixin]
        get_template_names_pjax
          [of "\<lparr>view_request = pjax_request, pjax_template_name = None\<rparr>" example_mixin]
  by (simp add: http_x_pjax_def dict_get_def pjax_request_def plain_request_def
        example_mixin_def pjaxify_template_name_def rsplit_dot_def)


section \<open>The tree walk: properties\<close>

lemma those_map_Some:
  "(\<And>x. x \<in> set xs \<Longrightarrow> f x = Some (g x)) \<Longrightarrow> those (map f xs) = Some (map g xs)"
  by (induction xs) simp_all

lemma fold_max_le: "fold max xs (a::nat) \<le> k \<longleftrightarrow> a \<le> k \<and> (\<forall>x\<in>set xs. x \<le> k)"
  by (induction xs arbitrary: a) auto

lemma patch_fuel_enough:
  "nodelist_depth nl \<le> k \<Longrightarrow> patch_tree_fuel k tb nl = Some (patch_tree tb nl)"
  "node_depth n \<le> k \<Longrightarrow> patch_node_fuel k tb n = Some (patch_node tb n)"
proof (induction tb nl and tb n arbitrary: k and k rule: patch_tree_patch_node.induct)
  case (1 tb c b ns)
  from "1.prems" obtain k' where k: "k = Suc k'" and le: "fold max (map node_depth ns) 0 \<le> k'"
    by (cases k) auto
  have "\<And>x. x \<in> set ns \<Longrightarrow> patch_node_fuel k' tb x = Some (patch_node tb x)"
    using le "1.IH" by (simp add: fold_max_le)
  then have "those (map (patch_node_fuel k' tb) ns) = Some (map (patch_node tb) ns)"
    by (rule those_map_Some)
  then show ?case by (simp add: k)
qed simp_all

lemma nl_nodes_patch_tree [simp]:
  "nl_nodes (patch_tree tb nl) = map (patch_node tb) (nl_nodes nl)"
  by (cases nl) simp

lemma nl_class_patch_tree [simp]: "nl_class (patch_tree tb nl) = nl_class nl"
  by (cases nl) simp

lemma nl_block_name_patch_tree [simp]: "nl_block_name (patch_tree tb nl) = nl_block_name nl"
  by (cases nl) simp

lemma nl_nodes_cast [simp]: "nl_nodes (cast_nodelist name nl) = nl_nodes nl"
  by (cases nl) simp

lemma nl_class_cast [simp]: "nl_class (cast_nodelist name nl) = PJAXBlockNodeList"
  by (cases nl) simp

lemma nl_block_name_cast [simp]: "nl_block_name (cast_nodelist name nl) = Some name"
  by (cases nl) simp

lemma shallow_patch_node:
  "shallow (patch_node tb n) = (if is_target tb n then patched_shallow n else shallow n)"
  by (cases n) simp_all

lemma node_at_nodes_cong: "nl_nodes nl = nl_nodes nl' \<Longrightarrow> node_at nl p = node_at nl' p"
  by (cases "(nl, p)" rule: node_at.cases) simp_all

lemma node_at_patch_tree:
  "map_option shallow (node_at (patch_tree tb nl) p) =
   map_option (\<lambda>n. if walked tb nl p \<and> is_target tb n then patched_shallow n else shallow n)
     (node_at nl p)"
proof (induction nl p rule: node_at.induct)
  case (1 nl)
  show ?case by simp
next
  case (2 nl i)
  show ?case by (simp add: shallow_patch_node)
next
  case (3 nl i j p)
  show ?case
  proof (cases "i < length (nl_nodes nl)")
    case False
    then show ?thesis by simp
  next
    case True
    show ?thesis
    proof (cases "nl_nodes nl ! i")
      case (BlockNode name sub)
      show ?thesis
      proof (cases "PStr name \<in> set tb")
        case target: True
        have "node_at (cast_nodelist name sub) (j # p) = node_at sub (j # p)"
          by (rule node_at_nodes_cong) simp
        then show ?thesis using True BlockNode target by simp
      next
        case other: False
        then show ?thesis using True BlockNode "3.IH" [of sub] by simp
      qed
    next
      case (ContainerNode sub)
      then show ?thesis using True "3.IH" [of sub] by simp
    qed (use True in simp_all)
  qed
qed


text \<open>
  C6. The walk \<^verbatim>\<open>patch_tree\<close> ends on every tree: a call stack as deep as the
  \<^verbatim>\<open>nodelist\<close> attributes nest is enough, and any deeper one gives the same tree. In
  the tree it leaves, the node at every position has the kind, name, class and
  \<^verbatim>\<open>block_name\<close> it had, except the target blocks that the walk came to, whose node
  list has class \<^verbatim>\<open>PJAXBlockNodeList\<close> and the block's name; the walk comes to the nodes
  of the top list and to those of the \<^verbatim>\<open>nodelist\<close> of every node it came to that is not
  a target block, so never to the children of a target block. With the target names that
  \<^verbatim>\<open>rendered_content\<close> passes, a block (its name is a word of the template source, so
  not empty) is a target exactly when its name is \<^verbatim>\<open>block_name\<close> or \<^verbatim>\<open>title_block\<close>.
\<close>

theorem patch_tree_terminates_and_patches_targets:
  "patch_tree_fuel (nodelist_depth nl + extra) target_blocks nl = Some (patch_tree target_blocks nl)
   \<and> nl_class (patch_tree target_blocks nl) = nl_class nl
   \<and> nl_block_name (patch_tree target_blocks nl) = nl_block_name nl
   \<and> (\<forall>p. map_option shallow (node_at (patch_tree target_blocks nl) p) =
            map_option (\<lambda>n. if walked target_blocks nl p \<and> is_target target_blocks n
                             then patched_shallow n else shallow n)
              (node_at nl p))
   \<and> (\<forall>name sub. name \<noteq> [] \<longrightarrow>
          is_target (target_blocks_of block_name' title_block') (BlockNode name sub) =
            (block_name' = PStr name \<or> title_block' = PStr name))"
proof -
  have names: "name \<noteq> [] \<longrightarrow>
          is_target (target_blocks_of block_name' title_block') (BlockNode name sub) =
            (block_name' = PStr name \<or> title_block' = PStr name)" for name sub
    by (auto simp: target_blocks_of_def)
  show ?thesis
    using names by (simp add: patch_fuel_enough node_at_patch_tree)
qed

theorem patch_tree_terminates_and_patches_targets_witness:
  "patch_tree_fuel 4 [PStr ''main'', PStr ''title''] (template_nodelist example_template) =
     Some (patch_tree [PStr ''main'', PStr ''title''] (template_nodelist example_template))
   \<and> map_option shallow
       (node_at (patch_tree [PStr ''main'', PStr ''title''] (template_nodelist example_template))
          [1]) = Some (BlockNode ''title'' (NL PJAXBlockNodeList (Some ''title'') []))
   \<and> map_option shallow
       (node_at (patch_tree [PStr ''main'', PStr ''title''] (template_nodelist example_template))
          [2, 0]) = Some (BlockNode ''main'' (NL PJAXBlockNodeList (Some ''main'') []))
   \<and> map_option shallow
       (node_at (patch_tree [PStr ''main'', PStr ''title''] (template_nodelist example_template))
          [2, 0, 2]) = Some (BlockNode ''title'' (NL NodeList None []))
   \<and> map_option shallow
       (node_at (patch_tree [PStr ''main'', PStr ''side''] (template_nodelist example_template))
          [3, 0]) = Some (BlockNode ''side'' (NL NodeList None []))
   \<and> patch_tree_fuel 1 [PStr ''main'', PStr ''title''] (template_nodelist example_template) =
       None"
proof -
  have a: "map_option shallow
       (node_at (patch_tree [PStr ''main'', PStr ''title''] (template_nodelist example_template))
          [1]) = Some (BlockNode ''title'' (NL PJAXBlockNodeList (Some ''title'') []))"
    by code_simp
  have b: "map_option shallow
       (node_at (patch_tree [PStr ''main'', PStr ''title''] (template_nodelist example_template))
          [2, 0]) = Some (BlockNode ''main'' (NL PJAXBlockNodeList (Some ''main'') []))"
    by code_simp
  have c: "map_option shallow
       (node_at (patch_tree [PStr ''main'', PStr ''title''] (template_nodelist example_template))
          [2, 0, 2]) = Some (BlockNode ''title'' (NL NodeList None []))"
    by code_simp
  have d: "map_option shallow
       (node_at (patch_tree [PStr ''main'', PStr ''side''] (template_nodelist example_template))
          [3, 0]) = Some (BlockNode ''side'' (NL NodeList None []))"
    by code_simp
  have depth: "nodelist_depth (template_nodelist example_template) + 0 = 4"
    by code_simp
  have short: "patch_tree_fuel 1 [PStr ''main'', PStr ''title'']
                 (template_nodelist example_template) = None"
    by code_simp
  show ?thesis
    using patch_tree_terminates_and_patches_targets
            [of "template_nodelist example_template" 0 "[PStr ''main'', PStr ''title'']"
                "PStr ''main''" "PStr ''title''"]
          a b c d short
    unfolding depth by simp
qed


section \<open>Capturing and the response class: properties\<close>









end
